theory Spec2Isabelle
  imports Complex_Main
begin

section \<open>Strings\<close>

text \<open>
  A JavaScript string is a sequence of UTF-16 code units; a code unit is modelled by its
  number, so that the bullet mark U+2022 of the source is the unit 8226. \<open>asc\<close> turns
  an ASCII literal into such a sequence.
\<close>

type_synonym jsstring = "nat list"

definition asc :: "string \<Rightarrow> jsstring" where
  "asc s = map of_char s"

definition bulletMark :: nat where
  "bulletMark = 8226"

text \<open>
  \<open>String.prototype.toLowerCase\<close>. The letters A to Z become a to z. Two code units
  outside ASCII have a lowercase form with an ASCII letter in it and are mapped as
  ECMAScript maps them: the Kelvin sign U+212A becomes \<open>k\<close>, and the dotted capital I
  U+0130 becomes \<open>i\<close> followed by the combining dot U+0307. Every other code unit is
  kept: ECMAScript maps a letter outside ASCII to letters outside ASCII, one code point
  to one, so the result has the same ASCII code units at the same places, and these alone
  decide whether an ASCII keyword occurs in it.
\<close>

definition toLowerUnit :: "nat \<Rightarrow> jsstring" where
  "toLowerUnit c =
     (if 65 \<le> c \<and> c \<le> 90 then [c + 32]
      else if c = 8490 then [107]
      else if c = 304 then [105, 775]
      else [c])"

definition toLowerCase :: "jsstring \<Rightarrow> jsstring" where
  "toLowerCase s = concat (map toLowerUnit s)"

fun startsWith :: "jsstring \<Rightarrow> jsstring \<Rightarrow> bool" where
  "startsWith s [] = True"
| "startsWith [] (p # ps) = False"
| "startsWith (c # cs) (p # ps) = (c = p \<and> startsWith cs ps)"

definition endsWith :: "jsstring \<Rightarrow> jsstring \<Rightarrow> bool" where
  "endsWith s p = startsWith (rev s) (rev p)"

text \<open>\<open>String.prototype.includes\<close>: the pattern occurs at some position.\<close>

fun js_includes :: "jsstring \<Rightarrow> jsstring \<Rightarrow> bool" where
  "js_includes [] p = (p = [])"
| "js_includes (c # cs) p = (startsWith (c # cs) p \<or> js_includes cs p)"

text \<open>
  The WhiteSpace and LineTerminator code points of ECMAScript, which
  \<open>String.prototype.trim\<close> removes at both ends.
\<close>

definition isWhiteSpace :: "nat \<Rightarrow> bool" where
  "isWhiteSpace c =
     (c \<in> set [9, 10, 11, 12, 13, 32, 160, 5760, 8232, 8233, 8239, 8287, 12288, 65279]
      \<or> (8192 \<le> c \<and> c \<le> 8202))"

definition trim :: "jsstring \<Rightarrow> jsstring" where
  "trim s = rev (dropWhile isWhiteSpace (rev (dropWhile isWhiteSpace s)))"

text \<open>\<open>s.split('\n')\<close>: the pieces between line feeds; an empty string gives one empty piece.\<close>

fun splitLines :: "jsstring \<Rightarrow> jsstring list" where
  "splitLines [] = [[]]"
| "splitLines (c # cs) =
     (if c = 10 then [] # splitLines cs
      else (case splitLines cs of [] \<Rightarrow> [[c]] | l # ls \<Rightarrow> (c # l) # ls))"

section \<open>The simulated answer logic: \<open>processQuery\<close>\<close>

datatype intent = Installation | Compatibility | Troubleshooting | General

record partInfo =
  partNumber :: jsstring
  name :: jsstring
  price :: jsstring
  inStock :: bool

record product =
  p_partNumber :: jsstring
  p_name :: jsstring
  p_price :: jsstring
  p_compatibility :: jsstring
  p_fixPercentage :: nat

record diagnosis =
  issue :: jsstring
  solution :: jsstring
  likelihood :: jsstring

record recommendedPart =
  r_partNumber :: jsstring
  r_name :: jsstring
  r_price :: jsstring
  r_fixPercentage :: nat
  r_reviews :: rat

text \<open>
  The object returned by \<open>processQuery\<close>. A property that the object literal does not
  have is \<open>None\<close>.
\<close>

record response =
  rtype :: intent
  rcontent :: jsstring
  r_partInfo :: "partInfo option"
  r_products :: "product list option"
  r_troubleshooting :: "diagnosis list option"
  r_recommendedParts :: "recommendedPart list option"

definition installationContent :: jsstring where
  \<open>installationContent =
     asc ''**Installation Guide for Part PS11752778 - Dishwasher Upper Rack Adjuster**\<newline>''
     @ asc ''\<newline>''
     @ asc ''**Tools Needed:**\<newline>''
     @ [bulletMark]
     @ asc '' Phillips screwdriver\<newline>''
     @ [bulletMark]
     @ asc '' Needle-nose pliers (optional)\<newline>''
     @ asc ''\<newline>''
     @ asc ''**Step-by-Step Instructions:**\<newline>''
     @ asc ''\<newline>''
     @ asc ''1. **Safety First**: Disconnect power to the dishwasher\<newline>''
     @ asc ''2. **Remove Upper Rack**: Pull the rack completely out of the dishwasher\<newline>''
     @ asc ''3. **Locate Adjuster**: Find the worn adjuster on the side of the rack\<newline>''
     @ asc ''4. **Remove Old Part**: Press the release tab and slide out the old adjuster\<newline>''
     @ asc ''5. **Install New Adjuster**: Align the new PS11752778 adjuster and snap ''
     @ asc ''it into place\<newline>''
     @ asc ''6. **Test Movement**: Ensure the adjuster moves smoothly up and down\<newline>''
     @ asc ''7. **Reinstall Rack**: Slide the rack back into the dishwasher\<newline>''
     @ asc ''8. **Test**: Run a test cycle to verify proper operation\<newline>''
     @ asc ''\<newline>''
     @ asc ''**Estimated Time:** 15-20 minutes\<newline>''
     @ asc ''**Difficulty:** Easy\<newline>''
     @ asc ''\<newline>''
     @ asc ''[View Video Tutorial](https://www.partselect.com/PS11752778)''\<close>

definition compatibilityContent :: jsstring where
  \<open>compatibilityContent =
     asc ''**Compatibility Check for Model WDT780SAEM1**\<newline>''
     @ asc ''\<newline>''
     @ asc ''Great news! I found several compatible parts for your Whirlpool dishwasher ''
     @ asc ''model **WDT780SAEM1**.\<newline>''
     @ asc ''\<newline>''
     @ asc ''**Based on your question, here are the most relevant parts:**''\<close>

definition troubleshootingContent :: jsstring where
  \<open>troubleshootingContent =
     asc ''**Troubleshooting: Ice Maker Not Working - Whirlpool Refrigerator**\<newline>''
     @ asc ''\<newline>''
     @ asc ''**Common Causes & Solutions:**''\<close>

definition generalContent :: jsstring where
  \<open>generalContent =
     asc ''I can help you with that! To provide the most accurate information, please ''
     @ asc ''specify:\<newline>''
     @ asc ''\<newline>''
     @ [bulletMark]
     @ asc '' Part number (e.g., PS11752778)\<newline>''
     @ [bulletMark]
     @ asc '' Model number (e.g., WDT780SAEM1)\<newline>''
     @ [bulletMark]
     @ asc '' Specific issue or question\<newline>''
     @ asc ''\<newline>''
     @ asc ''Or try asking:\<newline>''
     @ [bulletMark]
     @ asc '' "How do I install part PS11752778?"\<newline>''
     @ [bulletMark]
     @ asc '' "Is part X compatible with model Y?"\<newline>''
     @ [bulletMark]
     @ asc '' "My ice maker isn't working"''\<close>

definition installationResponse :: response where
  "installationResponse =
     \<lparr>rtype = Installation, rcontent = installationContent,
      r_partInfo = Some \<lparr>partNumber = asc ''PS11752778'', name = asc ''Upper Rack Adjuster'',
                          price = asc ''$12.99'', inStock = True\<rparr>,
      r_products = None, r_troubleshooting = None, r_recommendedParts = None\<rparr>"

definition compatibilityResponse :: response where
  "compatibilityResponse =
     \<lparr>rtype = Compatibility, rcontent = compatibilityContent,
      r_partInfo = None,
      r_products = Some
        [\<lparr>p_partNumber = asc ''W10350375'', p_name = asc ''Dishwasher Upper Rack Assembly'',
          p_price = asc ''$89.95'', p_compatibility = asc ''Direct Fit'', p_fixPercentage = 95\<rparr>,
         \<lparr>p_partNumber = asc ''W10195416'', p_name = asc ''Dishwasher Spray Arm'',
          p_price = asc ''$32.50'', p_compatibility = asc ''Direct Fit'', p_fixPercentage = 88\<rparr>,
         \<lparr>p_partNumber = asc ''W10712395'', p_name = asc ''Door Latch Assembly'',
          p_price = asc ''$67.80'', p_compatibility = asc ''Direct Fit'', p_fixPercentage = 92\<rparr>],
      r_troubleshooting = None, r_recommendedParts = None\<rparr>"

definition troubleshootingResponse :: response where
  "troubleshootingResponse =
     \<lparr>rtype = Troubleshooting, rcontent = troubleshootingContent,
      r_partInfo = None, r_products = None,
      r_troubleshooting = Some
        [\<lparr>issue = asc ''Water Supply Issue'',
          solution = asc ''Check if water supply valve is fully open. Inspect water line for kinks or freezing.'',
          likelihood = asc ''High - 35%''\<rparr>,
         \<lparr>issue = asc ''Faulty Ice Maker Assembly'',
          solution = asc ''Test the ice maker module. If it doesn't cycle, replacement may be needed.'',
          likelihood = asc ''High - 30%''\<rparr>,
         \<lparr>issue = asc ''Water Inlet Valve Problem'',
          solution = asc ''Check for proper water pressure (20-120 PSI). Test valve with multimeter.'',
          likelihood = asc ''Medium - 20%''\<rparr>],
      r_recommendedParts = Some
        [\<lparr>r_partNumber = asc ''W10190965'', r_name = asc ''Ice Maker Assembly'',
          r_price = asc ''$124.99'', r_fixPercentage = 87, r_reviews = 45 / 10\<rparr>,
         \<lparr>r_partNumber = asc ''W10408179'', r_name = asc ''Water Inlet Valve'',
          r_price = asc ''$45.50'', r_fixPercentage = 78, r_reviews = 43 / 10\<rparr>]\<rparr>"

definition generalResponse :: response where
  "generalResponse =
     \<lparr>rtype = General, rcontent = generalContent,
      r_partInfo = None, r_products = None, r_troubleshooting = None,
      r_recommendedParts = None\<rparr>"

text \<open>
  \<open>processQuery\<close> tests the lowercased query against three pairs of literal substrings,
  in this order, and returns the object of the first pair that is present.
\<close>

definition processQuery :: "jsstring \<Rightarrow> response" where
  "processQuery query =
     (let lowerQuery = toLowerCase query in
      if js_includes lowerQuery (asc ''install'') \<and> js_includes lowerQuery (asc ''ps11752778'')
      then installationResponse
      else if js_includes lowerQuery (asc ''compatible'')
              \<and> js_includes lowerQuery (asc ''wdt780saem1'')
      then compatibilityResponse
      else if js_includes lowerQuery (asc ''ice maker'')
              \<and> js_includes lowerQuery (asc ''not working'')
      then troubleshootingResponse
      else generalResponse)"

text \<open>The three conditions of \<open>processQuery\<close>, named for the statements below.\<close>

definition installationRule :: "jsstring \<Rightarrow> bool" where
  "installationRule lowerQuery =
     (js_includes lowerQuery (asc ''install'') \<and> js_includes lowerQuery (asc ''ps11752778''))"

definition compatibilityRule :: "jsstring \<Rightarrow> bool" where
  "compatibilityRule lowerQuery =
     (js_includes lowerQuery (asc ''compatible'') \<and> js_includes lowerQuery (asc ''wdt780saem1''))"

definition troubleshootingRule :: "jsstring \<Rightarrow> bool" where
  "troubleshootingRule lowerQuery =
     (js_includes lowerQuery (asc ''ice maker'') \<and> js_includes lowerQuery (asc ''not working''))"

section \<open>Rendering the narrative text: \<open>renderMessage\<close>\<close>

datatype jserror = TypeError | SyntaxError | NetworkError | BackendError

text \<open>
  The elements that the callback of \<open>message.content.split('\n').map\<close> returns, one
  constructor for each \<open>return\<close> of the callback: the bold line, the indented line of
  a bullet, the indented line of a numbered step, the anchor, the plain line, and the
  spacer of an empty line.
\<close>

datatype block =
  Heading jsstring | Bullet jsstring | Numbered jsstring | Link jsstring
  | Paragraph jsstring | Blank

text \<open>\<open>line.replace(/\*\*/g, '')\<close>: every pair of asterisks, found from the left, is removed.\<close>

fun replaceBold :: "jsstring \<Rightarrow> jsstring" where
  "replaceBold (a # b # cs) =
     (if a = 42 \<and> b = 42 then replaceBold cs else a # replaceBold (b # cs))"
| "replaceBold cs = cs"

definition isDigit :: "nat \<Rightarrow> bool" where
  "isDigit c = (48 \<le> c \<and> c \<le> 57)"

text \<open>\<open>/^\d+\./\<close>: one digit or more at the start, then a full stop.\<close>

definition matchNumbered :: "jsstring \<Rightarrow> bool" where
  "matchNumbered s =
     (takeWhile isDigit s \<noteq> []
      \<and> (case dropWhile isDigit s of [] \<Rightarrow> False | c # cs \<Rightarrow> c = 46))"

text \<open>
  \<open>line.match(/\[(.*?)\]/)\<close>. The dot of a regular expression matches every code unit
  but the line terminators, and \<open>.*?\<close> stops at the first closing bracket. So the
  attempt that starts after an opening bracket succeeds when a closing bracket comes
  before any line terminator, and its group is the text in between; the match is the
  leftmost attempt that succeeds, and \<open>None\<close> is the \<open>null\<close> of no match.
\<close>

definition isLineTerminator :: "nat \<Rightarrow> bool" where
  "isLineTerminator c = (c \<in> set [10, 13, 8232, 8233])"

fun matchGroup :: "jsstring \<Rightarrow> jsstring option" where
  "matchGroup [] = None"
| "matchGroup (c # cs) =
     (if c = 93 then Some []
      else if isLineTerminator c then None
      else map_option ((#) c) (matchGroup cs))"

fun matchLabel :: "jsstring \<Rightarrow> jsstring option" where
  "matchLabel [] = None"
| "matchLabel (c # cs) =
     (if c = 91 then (case matchGroup cs of Some g \<Rightarrow> Some g | None \<Rightarrow> matchLabel cs)
      else matchLabel cs)"

text \<open>
  The callback itself. Reading \<open>[1]\<close> of a \<open>null\<close> match throws a \<open>TypeError\<close>.
\<close>

definition renderLine :: "jsstring \<Rightarrow> jserror + block" where
  "renderLine line =
     (if startsWith line (asc ''**'') \<and> endsWith line (asc ''**'')
      then Inr (Heading (replaceBold line))
      else if startsWith line [bulletMark] then Inr (Bullet line)
      else if matchNumbered (trim line) then Inr (Numbered line)
      else if js_includes line (asc ''[View Video Tutorial]'')
      then (case matchLabel line of None \<Rightarrow> Inl TypeError | Some label \<Rightarrow> Inr (Link label))
      else if line \<noteq> [] then Inr (Paragraph line) else Inr Blank)"

text \<open>\<open>map\<close> calls the callback on the lines in order; the first exception ends it.\<close>

fun renderLines :: "jsstring list \<Rightarrow> jserror + block list" where
  "renderLines [] = Inr []"
| "renderLines (l # ls) =
     (case renderLine l of
        Inl e \<Rightarrow> Inl e
      | Inr b \<Rightarrow> (case renderLines ls of Inl e \<Rightarrow> Inl e | Inr bs \<Rightarrow> Inr (b # bs)))"

definition renderContent :: "jsstring \<Rightarrow> jserror + block list" where
  "renderContent text = renderLines (splitLines text)"

section \<open>The transcript and the two controllers\<close>

datatype role = User | Bot

text \<open>
  An entry of \<open>messages\<close>. \<open>new Date()\<close> is the argument \<open>now\<close> of the functions
  that create an entry. The entries of the simulated component carry a string and the
  object of \<open>processQuery\<close>; those of the component that calls the backend carry
  values of its JSON answer.
\<close>

record ('c, 'd) message =
  mtype :: role
  content :: 'c
  data :: "'d option"
  timestamp :: nat

record ('c, 'd) state =
  messages :: "('c, 'd) message list"
  input :: jsstring
  isLoading :: bool

text \<open>
  \<open>renderMessage\<close> of the simulated component: the bubble of a user entry, or the
  blocks of a bot entry with the cards of \<open>message.data\<close>; the recommended parts are
  inside the troubleshooting card.
\<close>

datatype view =
  UserView jsstring
  | BotView "block list" "partInfo option" "product list option"
      "(diagnosis list \<times> recommendedPart list option) option"

definition renderMessage :: "(jsstring, response) message \<Rightarrow> jserror + view" where
  "renderMessage message =
     (if mtype message = User then Inr (UserView (content message))
      else (case renderContent (content message) of
              Inl e \<Rightarrow> Inl e
            | Inr blocks \<Rightarrow>
                Inr (BotView blocks
                      (Option.bind (data message) r_partInfo)
                      (Option.bind (data message) r_products)
                      (case Option.bind (data message) r_troubleshooting of
                         None \<Rightarrow> None
                       | Some items \<Rightarrow>
                           Some (items, Option.bind (data message) r_recommendedParts)))))"

subsection \<open>The simulated component\<close>

text \<open>
  \<open>handleSend\<close> up to \<open>setTimeout\<close>: the new state, and the query handed to the
  timer when the submission is accepted.
\<close>

definition handleSend ::
  "nat \<Rightarrow> (jsstring, response) state \<Rightarrow> (jsstring, response) state \<times> jsstring option" where
  "handleSend now s =
     (if trim (input s) = [] \<or> isLoading s then (s, None)
      else (s\<lparr>messages := messages s
                 @ [\<lparr>mtype = User, content = input s, data = None, timestamp = now\<rparr>],
              input := [], isLoading := True\<rparr>,
            Some (input s)))"

text \<open>The callback of \<open>setTimeout\<close>, run with the query that \<open>handleSend\<close> captured.\<close>

definition timerCallback ::
  "nat \<Rightarrow> jsstring \<Rightarrow> (jsstring, response) state \<Rightarrow> (jsstring, response) state" where
  "timerCallback now query s =
     (let response = processQuery query;
          botMessage = \<lparr>mtype = Bot, content = rcontent response, data = Some response,
                        timestamp = now\<rparr>
      in s\<lparr>messages := messages s @ [botMessage], isLoading := False\<rparr>)"

subsection \<open>The component that calls the backend\<close>

text \<open>
  The values of a parsed JSON text. An object is the list of its properties, each name
  once; a number is a fraction, the negative zero or an infinity, the values
  \<open>JSON.parse\<close> can give.
\<close>

datatype jsnumber = Finite rat | NegZero | PosInfinity | NegInfinity

datatype json =
  JNull | JBool bool | JNum jsnumber | JStr jsstring | JArr "json list"
  | JObj "(jsstring \<times> json) list"

text \<open>
  How \<open>fetch\<close> settles: it rejects, or it resolves with a status and a body, which
  \<open>response.json()\<close> parses (\<open>None\<close>: the body is not a JSON text).
\<close>

datatype fetchResult = Rejected | Resolved nat "json option"

definition ok :: "nat \<Rightarrow> bool" where
  "ok status = (200 \<le> status \<and> status \<le> 299)"

text \<open>\<open>sendChatMessage\<close> of \<open>utils/api.js\<close>, after its \<open>fetch\<close> has settled.\<close>

definition sendChatMessage :: "fetchResult \<Rightarrow> jserror + json" where
  "sendChatMessage res =
     (case res of
        Rejected \<Rightarrow> Inl NetworkError
      | Resolved status body \<Rightarrow>
          if \<not> ok status then Inl BackendError
          else (case body of None \<Rightarrow> Inl SyntaxError | Some v \<Rightarrow> Inr v))"

text \<open>
  \<open>data.response\<close>: reading a property of \<open>null\<close> throws; an object gives the property
  or \<open>undefined\<close> (\<open>None\<close>); every other value has no such property.
\<close>

fun getResponse :: "json \<Rightarrow> jserror + json option" where
  "getResponse JNull = Inl TypeError"
| "getResponse (JObj props) = Inr (map_of props (asc ''response''))"
| "getResponse v = Inr None"

fun truthy :: "json option \<Rightarrow> bool" where
  "truthy None = False"
| "truthy (Some JNull) = False"
| "truthy (Some (JBool b)) = b"
| "truthy (Some (JNum n)) = (n \<noteq> Finite 0 \<and> n \<noteq> NegZero)"
| "truthy (Some (JStr s)) = (s \<noteq> [])"
| "truthy (Some v) = True"

text \<open>\<open>a || b\<close> on such values: \<open>a\<close> when it is truthy, \<open>b\<close> otherwise.\<close>

definition orElse :: "json option \<Rightarrow> json \<Rightarrow> json" where
  "orElse a b = (case a of None \<Rightarrow> b | Some v \<Rightarrow> if truthy (Some v) then v else b)"

definition couldNotProcess :: jsstring where
  "couldNotProcess = asc ''Sorry, I couldn't process that request.''"

definition backendErrorText :: jsstring where
  "backendErrorText =
     asc ''Sorry, I encountered an error. Please make sure the backend server is running on port 5001.''"

text \<open>
  \<open>handleSend\<close> of the component up to \<open>await fetch\<close>: the new state, and the message
  of the request when the submission is accepted.
\<close>

definition home_handleSend ::
  "nat \<Rightarrow> (json, json) state \<Rightarrow> (json, json) state \<times> jsstring option" where
  "home_handleSend now s =
     (if trim (input s) = [] \<or> isLoading s then (s, None)
      else (s\<lparr>messages := messages s
                 @ [\<lparr>mtype = User, content = JStr (input s), data = None, timestamp = now\<rparr>],
              input := [], isLoading := True\<rparr>,
            Some (input s)))"

text \<open>The body of \<open>try\<close>: the bot entry, or the exception that was thrown.\<close>

definition home_tryBody :: "nat \<Rightarrow> fetchResult \<Rightarrow> jserror + (json, json) message" where
  "home_tryBody now res =
     (case res of
        Rejected \<Rightarrow> Inl NetworkError
      | Resolved status body \<Rightarrow>
          (case body of
             None \<Rightarrow> Inl SyntaxError
           | Some d \<Rightarrow>
               (case getResponse d of
                  Inl e \<Rightarrow> Inl e
                | Inr r \<Rightarrow>
                    Inr \<lparr>mtype = Bot,
                         content = orElse r (JStr couldNotProcess),
                         data = Some d, timestamp = now\<rparr>)))"

text \<open>
  The rest of \<open>handleSend\<close> once \<open>fetch\<close> has settled: \<open>try\<close>, \<open>catch\<close> and
  \<open>finally\<close>.
\<close>

definition home_resume ::
  "nat \<Rightarrow> fetchResult \<Rightarrow> (json, json) state \<Rightarrow> (json, json) state" where
  "home_resume now res s =
     (let s' = (case home_tryBody now res of
                  Inr botMessage \<Rightarrow> s\<lparr>messages := messages s @ [botMessage]\<rparr>
                | Inl e \<Rightarrow>
                    s\<lparr>messages := messages s
                         @ [\<lparr>mtype = Bot, content = JStr backendErrorText, data = None,
                             timestamp = now\<rparr>]\<rparr>)
      in s'\<lparr>isLoading := False\<rparr>)"

section \<open>Two notions in the words of the specification\<close>

text \<open>
  The specification names as a part number a token that begins with the letters PS,
  in either case, followed by digits. \<open>spec_tokens\<close> cuts a text into its runs of
  ASCII letters and digits.
\<close>

definition isAlnum :: "nat \<Rightarrow> bool" where
  "isAlnum c = ((48 \<le> c \<and> c \<le> 57) \<or> (65 \<le> c \<and> c \<le> 90) \<or> (97 \<le> c \<and> c \<le> 122))"

fun spec_tokens_from :: "jsstring \<Rightarrow> jsstring \<Rightarrow> jsstring list" where
  "spec_tokens_from cur [] = (if cur = [] then [] else [rev cur])"
| "spec_tokens_from cur (c # cs) =
     (if isAlnum c then spec_tokens_from (c # cur) cs
      else (if cur = [] then [] else [rev cur]) @ spec_tokens_from [] cs)"

definition spec_isPartNumber :: "jsstring \<Rightarrow> bool" where
  "spec_isPartNumber tok =
     (case toLowerCase tok of
        p # s # ds \<Rightarrow> p = 112 \<and> s = 115 \<and> ds \<noteq> [] \<and> list_all isDigit ds
      | _ \<Rightarrow> False)"

definition spec_hasPartNumber :: "jsstring \<Rightarrow> bool" where
  "spec_hasPartNumber query = list_ex spec_isPartNumber (spec_tokens_from [] query)"

text \<open>
  The specification names as a model number an alphanumeric token of six characters or
  more that mixes letters and digits and is not a part number.
\<close>

definition isLetter :: "nat \<Rightarrow> bool" where
  "isLetter c = ((65 \<le> c \<and> c \<le> 90) \<or> (97 \<le> c \<and> c \<le> 122))"

definition spec_isModelNumber :: "jsstring \<Rightarrow> bool" where
  "spec_isModelNumber tok =
     (6 \<le> length tok \<and> list_ex isLetter tok \<and> list_ex isDigit tok
      \<and> \<not> spec_isPartNumber tok)"

definition spec_hasModelNumber :: "jsstring \<Rightarrow> bool" where
  "spec_hasModelNumber query = list_ex spec_isModelNumber (spec_tokens_from [] query)"


section \<open>Example inputs\<close>

definition queryAllRules :: jsstring where
  "queryAllRules =
     asc ''Install PS11752778: compatible with WDT780SAEM1? The ice maker is not working''"

definition queryCompatibleIceMaker :: jsstring where
  "queryCompatibleIceMaker =
     asc ''Is an ice maker compatible with WDT780SAEM1? Mine is not working''"

definition queryIceMaker :: jsstring where
  "queryIceMaker = asc ''My Whirlpool ice maker is not working''"

definition queryOther :: jsstring where
  "queryOther = asc ''Do you sell filters?''"

definition idleState :: "(jsstring, response) state" where
  "idleState = \<lparr>messages = [], input = [], isLoading = False\<rparr>"

definition homeAwaiting :: "(json, json) state" where
  "homeAwaiting =
     \<lparr>messages = [\<lparr>mtype = User, content = JStr (asc ''My ice maker is not working''),
                    data = None, timestamp = 1\<rparr>],
      input = [], isLoading = True\<rparr>"

definition text7 :: jsstring where
  "text7 = asc ''**Title**\<newline>'' @ [bulletMark] @ asc '' item\<newline>1. step\<newline>''"

definition tutorialLine :: jsstring where
  "tutorialLine = asc ''[View Video Tutorial](https://www.partselect.com/PS11752778)''"

definition docsLine :: jsstring where
  "docsLine = asc ''[Docs](https://example.com)''"

definition errorBody :: json where
  "errorBody = JObj [(asc ''error'', JStr (asc ''Internal Server Error''))]"

definition unavailableBody :: json where
  "unavailableBody = JObj [(asc ''response'', JStr (asc ''Service Unavailable''))]"




definition queryPatternBoth :: jsstring where
  "queryPatternBoth =
     asc ''How do I install part PS123? Is it compatible with WDT780SAEM1?''"

definition nestedLine :: jsstring where
  "nestedLine = asc ''[a[View Video Tutorial](x)''"

section \<open>Facts about the string functions\<close>

lemma startsWith_iff: "startsWith s p \<longleftrightarrow> (\<exists>post. s = p @ post)"
  by (induction s p rule: startsWith.induct) auto

lemma js_includes_iff: "js_includes s p \<longleftrightarrow> (\<exists>pre post. s = pre @ p @ post)"
proof (induction s)
  case Nil
  then show ?case by simp
next
  case (Cons c cs)
  show ?case
  proof
    assume "js_includes (c # cs) p"
    then consider "startsWith (c # cs) p" | "js_includes cs p" by auto
    then show "\<exists>pre post. c # cs = pre @ p @ post"
    proof cases
      case 1
      then obtain post where "c # cs = p @ post" by (auto simp: startsWith_iff)
      then have "c # cs = [] @ p @ post" by simp
      then show ?thesis by blast
    next
      case 2
      then obtain pre post where "cs = pre @ p @ post" using Cons.IH by blast
      then have "c # cs = (c # pre) @ p @ post" by simp
      then show ?thesis by blast
    qed
  next
    assume "\<exists>pre post. c # cs = pre @ p @ post"
    then obtain pre post where e: "c # cs = pre @ p @ post" by blast
    show "js_includes (c # cs) p"
    proof (cases pre)
      case Nil
      with e have "startsWith (c # cs) p" by (auto simp: startsWith_iff)
      then show ?thesis by simp
    next
      case (Cons a pre')
      with e have "cs = pre' @ p @ post" by simp
      then have "js_includes cs p" using Cons.IH by blast
      then show ?thesis by simp
    qed
  qed
qed

lemma js_includes_set: "js_includes s p \<Longrightarrow> set p \<subseteq> set s"
  by (auto simp: js_includes_iff)

text \<open>\<open>!input.trim()\<close> holds exactly for the inputs made of white space only.\<close>

lemma trim_empty_iff: "trim s = [] \<longleftrightarrow> (\<forall>c \<in> set s. isWhiteSpace c)"
proof
  assume "\<forall>c \<in> set s. isWhiteSpace c"
  then have d: "dropWhile isWhiteSpace s = []" by simp
  show "trim s = []" unfolding trim_def d by simp
next
  assume t: "trim s = []"
  define ys where "ys = dropWhile isWhiteSpace s"
  from t have "dropWhile isWhiteSpace (rev ys) = []" by (simp add: trim_def ys_def)
  then have all: "\<forall>c \<in> set ys. isWhiteSpace c" by simp
  have "ys = []"
  proof (rule ccontr)
    assume ne: "ys \<noteq> []"
    then have "\<not> isWhiteSpace (hd ys)" unfolding ys_def by (rule hd_dropWhile)
    moreover from ne have "hd ys \<in> set ys" by simp
    ultimately show False using all by blast
  qed
  then show "\<forall>c \<in> set s. isWhiteSpace c" by (simp add: ys_def)
qed

lemma toLowerCase_whitespace:
  assumes "\<forall>c \<in> set s. isWhiteSpace c"
  shows "toLowerCase s = s"
proof -
  have unit: "toLowerUnit c = [c]" if "isWhiteSpace c" for c
    using that by (auto simp: isWhiteSpace_def toLowerUnit_def)
  have "concat (map toLowerUnit xs) = xs" if "\<forall>c \<in> set xs. isWhiteSpace c" for xs
    using that by (induction xs) (simp_all add: unit)
  with assms show ?thesis by (simp add: toLowerCase_def)
qed

lemma whitespace_includes_no_letter:
  assumes "\<forall>c \<in> set s. isWhiteSpace c" and "js_includes (toLowerCase s) p"
  shows "\<forall>c \<in> set p. isWhiteSpace c"
  using assms js_includes_set [of s p] by (auto simp: toLowerCase_whitespace)

lemma whitespace_general:
  assumes "\<forall>c \<in> set q. isWhiteSpace c"
  shows "processQuery q = generalResponse"
proof -
  have i: "\<not> isWhiteSpace 105" and c: "\<not> isWhiteSpace 99"
    by (simp_all add: isWhiteSpace_def)
  have "\<not> js_includes (toLowerCase q) (asc ''install'')"
    using whitespace_includes_no_letter [OF assms, of "asc ''install''"] i
    by (auto simp: asc_def)
  moreover have "\<not> js_includes (toLowerCase q) (asc ''compatible'')"
    using whitespace_includes_no_letter [OF assms, of "asc ''compatible''"] c
    by (auto simp: asc_def)
  moreover have "\<not> js_includes (toLowerCase q) (asc ''ice maker'')"
    using whitespace_includes_no_letter [OF assms, of "asc ''ice maker''"] i
    by (auto simp: asc_def)
  ultimately show ?thesis by (simp add: processQuery_def)
qed

lemma rtype_responses:
  "rtype installationResponse = Installation"
  "rtype compatibilityResponse = Compatibility"
  "rtype troubleshootingResponse = Troubleshooting"
  "rtype generalResponse = General"
  by (simp_all add: installationResponse_def compatibilityResponse_def
      troubleshootingResponse_def generalResponse_def)

lemma processQuery_rules:
  "processQuery q =
     (if installationRule (toLowerCase q) then installationResponse
      else if compatibilityRule (toLowerCase q) then compatibilityResponse
      else if troubleshootingRule (toLowerCase q) then troubleshootingResponse
      else generalResponse)"
  by (simp add: processQuery_def Let_def installationRule_def compatibilityRule_def
      troubleshootingRule_def)

lemma queryAllRules_rules:
  "installationRule (toLowerCase queryAllRules)"
  "compatibilityRule (toLowerCase queryAllRules)"
  "troubleshootingRule (toLowerCase queryAllRules)"
  by (simp_all add: queryAllRules_def installationRule_def compatibilityRule_def
      troubleshootingRule_def asc_def toLowerCase_def toLowerUnit_def)

lemma queryCompatibleIceMaker_rules:
  "\<not> installationRule (toLowerCase queryCompatibleIceMaker)"
  "compatibilityRule (toLowerCase queryCompatibleIceMaker)"
  "troubleshootingRule (toLowerCase queryCompatibleIceMaker)"
  by (simp_all add: queryCompatibleIceMaker_def installationRule_def compatibilityRule_def
      troubleshootingRule_def asc_def toLowerCase_def toLowerUnit_def)

lemma queryIceMaker_rules:
  "\<not> installationRule (toLowerCase queryIceMaker)"
  "\<not> compatibilityRule (toLowerCase queryIceMaker)"
  "troubleshootingRule (toLowerCase queryIceMaker)"
  by (simp_all add: queryIceMaker_def installationRule_def compatibilityRule_def
      troubleshootingRule_def asc_def toLowerCase_def toLowerUnit_def)

lemma queryOther_rules:
  "\<not> installationRule (toLowerCase queryOther)"
  "\<not> compatibilityRule (toLowerCase queryOther)"
  "\<not> troubleshootingRule (toLowerCase queryOther)"
  by (simp_all add: queryOther_def installationRule_def compatibilityRule_def
      troubleshootingRule_def asc_def toLowerCase_def toLowerUnit_def)

lemma example_types:
  "rtype (processQuery queryAllRules) = Installation"
  "rtype (processQuery queryCompatibleIceMaker) = Compatibility"
  "rtype (processQuery queryIceMaker) = Troubleshooting"
  "rtype (processQuery queryOther) = General"
  by (simp_all add: processQuery_rules rtype_responses queryAllRules_rules
      queryCompatibleIceMaker_rules queryIceMaker_rules queryOther_rules)

section \<open>Classification\<close>

text \<open>
  C1, as it holds on the code: for every query whose lowercased text contains
  \<open>install\<close> and the literal identifier \<open>ps11752778\<close>, \<open>processQuery\<close> returns the
  installation object, whose type is \<open>installation\<close>.
\<close>

theorem installation_literal:
  assumes "js_includes (toLowerCase q) (asc ''install'')"
    and "js_includes (toLowerCase q) (asc ''ps11752778'')"
  shows "processQuery q = installationResponse \<and> rtype (processQuery q) = Installation"
  using assms by (simp add: processQuery_def rtype_responses)

text \<open>The quick action of the component, \<open>How do I install part PS11752778?\<close>, is such a query.\<close>

theorem installation_literal_witness:
  "js_includes (toLowerCase (asc ''How do I install part PS11752778?'')) (asc ''install'')
   \<and> js_includes (toLowerCase (asc ''How do I install part PS11752778?'')) (asc ''ps11752778'')
   \<and> processQuery (asc ''How do I install part PS11752778?'') = installationResponse
   \<and> rtype (processQuery (asc ''How do I install part PS11752778?'')) = Installation"
proof -
  have a: "js_includes (toLowerCase (asc ''How do I install part PS11752778?'')) (asc ''install'')"
    by (simp add: asc_def toLowerCase_def toLowerUnit_def)
  have b: "js_includes (toLowerCase (asc ''How do I install part PS11752778?'')) (asc ''ps11752778'')"
    by (simp add: asc_def toLowerCase_def toLowerUnit_def)
  show ?thesis using a b installation_literal [OF a b] by blast
qed

text \<open>
  C1 as the specification words it fails: \<open>How do I install part PS123?\<close> contains the
  keyword and the token \<open>PS123\<close>, the letters PS followed by digits, and
  \<open>processQuery\<close> answers with the general object.
\<close>

theorem installation_pattern_counterexample:
  "js_includes (toLowerCase (asc ''How do I install part PS123?'')) (asc ''install'')
   \<and> spec_hasPartNumber (asc ''How do I install part PS123?'')
   \<and> rtype (processQuery (asc ''How do I install part PS123?'')) = General
   \<and> rtype (processQuery (asc ''How do I install part PS123?'')) \<noteq> Installation"
  by (simp add: asc_def toLowerCase_def toLowerUnit_def processQuery_def rtype_responses
      spec_hasPartNumber_def spec_isPartNumber_def isAlnum_def isDigit_def)

text \<open>
  C2, as it holds on the code: a query whose lowercased text passes both the installation
  test of \<open>processQuery\<close> (\<open>install\<close> and the literal \<open>ps11752778\<close>) and its
  compatibility test (\<open>compatible\<close> and the literal \<open>wdt780saem1\<close>) is classified
  as \<open>installation\<close>. The order of the tests decides: a query that passes the
  installation test is \<open>installation\<close> whatever else it passes; one that fails it and
  passes the compatibility test is \<open>compatibility\<close>; one that fails both and passes
  the troubleshooting test is \<open>troubleshooting\<close>; one that fails all three is
  \<open>general\<close>.
\<close>

theorem rule_order_precedence:
  "(installationRule (toLowerCase q) \<and> compatibilityRule (toLowerCase q)
      \<longrightarrow> rtype (processQuery q) = Installation)
   \<and> (installationRule (toLowerCase q) \<longrightarrow> rtype (processQuery q) = Installation)
   \<and> (\<not> installationRule (toLowerCase q) \<and> compatibilityRule (toLowerCase q)
      \<longrightarrow> rtype (processQuery q) = Compatibility)
   \<and> (\<not> installationRule (toLowerCase q) \<and> \<not> compatibilityRule (toLowerCase q)
        \<and> troubleshootingRule (toLowerCase q)
      \<longrightarrow> rtype (processQuery q) = Troubleshooting)
   \<and> (\<not> installationRule (toLowerCase q) \<and> \<not> compatibilityRule (toLowerCase q)
        \<and> \<not> troubleshootingRule (toLowerCase q)
      \<longrightarrow> rtype (processQuery q) = General)"
  by (simp add: processQuery_rules rtype_responses)

text \<open>
  Four queries: one that passes all three tests, one that passes the second and the
  third, one that passes the third only, one that passes none.
\<close>

theorem rule_order_precedence_witness:
  "installationRule (toLowerCase queryAllRules)
   \<and> compatibilityRule (toLowerCase queryAllRules)
   \<and> troubleshootingRule (toLowerCase queryAllRules)
   \<and> rtype (processQuery queryAllRules) = Installation
   \<and> \<not> installationRule (toLowerCase queryCompatibleIceMaker)
   \<and> compatibilityRule (toLowerCase queryCompatibleIceMaker)
   \<and> troubleshootingRule (toLowerCase queryCompatibleIceMaker)
   \<and> rtype (processQuery queryCompatibleIceMaker) = Compatibility
   \<and> \<not> installationRule (toLowerCase queryIceMaker)
   \<and> \<not> compatibilityRule (toLowerCase queryIceMaker)
   \<and> troubleshootingRule (toLowerCase queryIceMaker)
   \<and> rtype (processQuery queryIceMaker) = Troubleshooting
   \<and> \<not> installationRule (toLowerCase queryOther)
   \<and> \<not> compatibilityRule (toLowerCase queryOther)
   \<and> \<not> troubleshootingRule (toLowerCase queryOther)
   \<and> rtype (processQuery queryOther) = General"
proof -
  have a: "rtype (processQuery queryAllRules) = Installation"
    using rule_order_precedence [of queryAllRules] queryAllRules_rules by simp
  have b: "rtype (processQuery queryCompatibleIceMaker) = Compatibility"
    using rule_order_precedence [of queryCompatibleIceMaker] queryCompatibleIceMaker_rules
    by simp
  have c: "rtype (processQuery queryIceMaker) = Troubleshooting"
    using rule_order_precedence [of queryIceMaker] queryIceMaker_rules by simp
  have d: "rtype (processQuery queryOther) = General"
    using rule_order_precedence [of queryOther] queryOther_rules by simp
  show ?thesis
    using a b c d queryAllRules_rules queryCompatibleIceMaker_rules queryIceMaker_rules
      queryOther_rules
    by simp
qed

text \<open>
  C2 as worded fails: \<open>How do I install part PS123? Is it compatible with WDT780SAEM1?\<close>
  has the installation keyword with the part-number token \<open>PS123\<close> and the
  compatibility keyword with the model number \<open>WDT780SAEM1\<close>, and it is classified
  as \<open>compatibility\<close>.
\<close>

theorem rule_order_pattern_counterexample:
  "js_includes (toLowerCase queryPatternBoth) (asc ''install'')
   \<and> spec_hasPartNumber queryPatternBoth
   \<and> js_includes (toLowerCase queryPatternBoth) (asc ''compatible'')
   \<and> spec_hasModelNumber queryPatternBoth
   \<and> js_includes (toLowerCase queryPatternBoth) (asc ''wdt780saem1'')
   \<and> rtype (processQuery queryPatternBoth) = Compatibility
   \<and> rtype (processQuery queryPatternBoth) \<noteq> Installation"
  by (simp add: queryPatternBoth_def asc_def toLowerCase_def toLowerUnit_def processQuery_def
      rtype_responses spec_hasPartNumber_def spec_isPartNumber_def isAlnum_def isDigit_def
      spec_hasModelNumber_def spec_isModelNumber_def isLetter_def)

text \<open>
  C3: a text for which none of the three conditions holds gets the general object, and so
  does the empty string. A text of white space only gets it too; on such an input
  \<open>handleSend\<close> returns at once, so that nothing is handed to \<open>processQuery\<close>, the
  only place where the text of a query is examined.
\<close>

theorem fallback_general:
  "(\<not> installationRule (toLowerCase q) \<and> \<not> compatibilityRule (toLowerCase q)
      \<and> \<not> troubleshootingRule (toLowerCase q)
      \<longrightarrow> processQuery q = generalResponse \<and> rtype (processQuery q) = General)
   \<and> rtype (processQuery []) = General
   \<and> ((\<forall>c \<in> set w. isWhiteSpace c)
      \<longrightarrow> rtype (processQuery w) = General
          \<and> handleSend now (s\<lparr>input := w\<rparr>) = (s\<lparr>input := w\<rparr>, None))"
proof (intro conjI impI)
  assume "\<not> installationRule (toLowerCase q) \<and> \<not> compatibilityRule (toLowerCase q)
      \<and> \<not> troubleshootingRule (toLowerCase q)"
  then show g: "processQuery q = generalResponse"
    by (simp add: processQuery_rules)
  then show "rtype (processQuery q) = General" by (simp add: rtype_responses)
next
  show "rtype (processQuery []) = General"
    using whitespace_general [of "[]"] by (simp add: rtype_responses)
next
  assume w: "\<forall>c \<in> set w. isWhiteSpace c"
  then show "rtype (processQuery w) = General"
    using whitespace_general [of w] by (simp add: rtype_responses)
  from w have "trim w = []" by (simp add: trim_empty_iff)
  then show "handleSend now (s\<lparr>input := w\<rparr>) = (s\<lparr>input := w\<rparr>, None)"
    by (simp add: handleSend_def)
qed

text \<open>A question that names no keyword, and an input of three spaces.\<close>

theorem fallback_general_witness:
  "\<not> installationRule (toLowerCase queryOther)
   \<and> \<not> compatibilityRule (toLowerCase queryOther)
   \<and> \<not> troubleshootingRule (toLowerCase queryOther)
   \<and> processQuery queryOther = generalResponse
   \<and> rtype (processQuery queryOther) = General
   \<and> list_all isWhiteSpace (asc ''   '')
   \<and> rtype (processQuery (asc ''   '')) = General
   \<and> handleSend 0 (idleState\<lparr>input := asc ''   ''\<rparr>) = (idleState\<lparr>input := asc ''   ''\<rparr>, None)"
proof -
  have b: "\<forall>c \<in> set (asc ''   ''). isWhiteSpace c"
    by (simp add: asc_def isWhiteSpace_def)
  then have b': "list_all isWhiteSpace (asc ''   '')" by (simp add: list_all_iff)
  show ?thesis
    using queryOther_rules b b' fallback_general [of queryOther "asc ''   ''" 0 idleState]
    by blast
qed

text \<open>What the four objects carry.\<close>

lemma content_nonempty:
  "installationContent \<noteq> []" "compatibilityContent \<noteq> []"
  "troubleshootingContent \<noteq> []" "generalContent \<noteq> []"
  by (simp_all add: installationContent_def compatibilityContent_def
      troubleshootingContent_def generalContent_def asc_def)

lemma installationResponse_populated:
  "\<exists>p. r_partInfo installationResponse = Some p
       \<and> partNumber p \<noteq> [] \<and> name p \<noteq> [] \<and> price p \<noteq> []"
  by (simp add: installationResponse_def asc_def)

lemma compatibilityResponse_populated:
  "\<exists>ps. r_products compatibilityResponse = Some ps \<and> length ps = 3
       \<and> (\<forall>p \<in> set ps. p_partNumber p \<noteq> [] \<and> p_name p \<noteq> [] \<and> p_price p \<noteq> []
              \<and> p_compatibility p \<noteq> [] \<and> p_fixPercentage p \<le> 100)"
  by (simp add: compatibilityResponse_def asc_def)

lemma troubleshootingResponse_populated:
  "\<exists>ds. r_troubleshooting troubleshootingResponse = Some ds \<and> length ds = 3
       \<and> (\<forall>d \<in> set ds. issue d \<noteq> [] \<and> solution d \<noteq> [] \<and> likelihood d \<noteq> [])"
  "\<exists>rs. r_recommendedParts troubleshootingResponse = Some rs \<and> length rs = 2
       \<and> (\<forall>r \<in> set rs. r_partNumber r \<noteq> [] \<and> r_name r \<noteq> [] \<and> r_price r \<noteq> []
              \<and> r_fixPercentage r \<le> 100 \<and> 0 \<le> r_reviews r \<and> r_reviews r \<le> 5)"
  by (simp_all add: troubleshootingResponse_def asc_def)

text \<open>
  C4: in every object that \<open>processQuery\<close> returns, the part card is present exactly
  when the type is \<open>installation\<close>, the product list exactly when it is
  \<open>compatibility\<close>, the diagnosis list and the recommended parts exactly when it is
  \<open>troubleshooting\<close>; the general object has none of the four. What is present is
  filled in: every object has a text, the part card has a number, a name and a price,
  the product list has three products, the diagnosis list three steps and the
  recommended parts two parts, each with all its texts, with a fix rate of at most 100
  and a review score between 0 and 5.
\<close>

theorem payload_fields_match_type:
  "(r_partInfo (processQuery q) \<noteq> None \<longleftrightarrow> rtype (processQuery q) = Installation)
   \<and> (r_products (processQuery q) \<noteq> None \<longleftrightarrow> rtype (processQuery q) = Compatibility)
   \<and> (r_troubleshooting (processQuery q) \<noteq> None
        \<longleftrightarrow> rtype (processQuery q) = Troubleshooting)
   \<and> (r_recommendedParts (processQuery q) \<noteq> None
        \<longleftrightarrow> rtype (processQuery q) = Troubleshooting)
   \<and> (rtype (processQuery q) = General
        \<longrightarrow> rcontent (processQuery q) \<noteq> []
            \<and> r_partInfo (processQuery q) = None \<and> r_products (processQuery q) = None
            \<and> r_troubleshooting (processQuery q) = None
            \<and> r_recommendedParts (processQuery q) = None)
   \<and> rcontent (processQuery q) \<noteq> []
   \<and> (rtype (processQuery q) = Installation
        \<longrightarrow> (\<exists>p. r_partInfo (processQuery q) = Some p
                 \<and> partNumber p \<noteq> [] \<and> name p \<noteq> [] \<and> price p \<noteq> []))
   \<and> (rtype (processQuery q) = Compatibility
        \<longrightarrow> (\<exists>ps. r_products (processQuery q) = Some ps \<and> length ps = 3
                 \<and> (\<forall>p \<in> set ps. p_partNumber p \<noteq> [] \<and> p_name p \<noteq> [] \<and> p_price p \<noteq> []
                        \<and> p_compatibility p \<noteq> [] \<and> p_fixPercentage p \<le> 100)))
   \<and> (rtype (processQuery q) = Troubleshooting
        \<longrightarrow> (\<exists>ds. r_troubleshooting (processQuery q) = Some ds \<and> length ds = 3
                 \<and> (\<forall>d \<in> set ds. issue d \<noteq> [] \<and> solution d \<noteq> [] \<and> likelihood d \<noteq> []))
            \<and> (\<exists>rs. r_recommendedParts (processQuery q) = Some rs \<and> length rs = 2
                 \<and> (\<forall>r \<in> set rs. r_partNumber r \<noteq> [] \<and> r_name r \<noteq> [] \<and> r_price r \<noteq> []
                        \<and> r_fixPercentage r \<le> 100 \<and> 0 \<le> r_reviews r
                        \<and> r_reviews r \<le> 5)))"
proof -
  have "processQuery q \<in> {installationResponse, compatibilityResponse,
      troubleshootingResponse, generalResponse}"
    by (simp add: processQuery_rules)
  then consider "processQuery q = installationResponse"
    | "processQuery q = compatibilityResponse"
    | "processQuery q = troubleshootingResponse" | "processQuery q = generalResponse"
    by blast
  then show ?thesis
  proof cases
    case 1
    have "r_products installationResponse = None" "r_troubleshooting installationResponse = None"
      "r_recommendedParts installationResponse = None"
      "rcontent installationResponse = installationContent"
      by (simp_all add: installationResponse_def)
    with 1 installationResponse_populated content_nonempty(1) show ?thesis
      by (auto simp: rtype_responses)
  next
    case 2
    have "r_partInfo compatibilityResponse = None"
      "r_troubleshooting compatibilityResponse = None"
      "r_recommendedParts compatibilityResponse = None"
      "rcontent compatibilityResponse = compatibilityContent"
      by (simp_all add: compatibilityResponse_def)
    with 2 compatibilityResponse_populated content_nonempty(2) show ?thesis
      by (auto simp: rtype_responses)
  next
    case 3
    have "r_partInfo troubleshootingResponse = None" "r_products troubleshootingResponse = None"
      "rcontent troubleshootingResponse = troubleshootingContent"
      by (simp_all add: troubleshootingResponse_def)
    with 3 troubleshootingResponse_populated content_nonempty(3) show ?thesis
      by (auto simp: rtype_responses)
  next
    case 4
    have "r_partInfo generalResponse = None" "r_products generalResponse = None"
      "r_troubleshooting generalResponse = None" "r_recommendedParts generalResponse = None"
      "rcontent generalResponse = generalContent"
      by (simp_all add: generalResponse_def)
    with 4 content_nonempty(4) show ?thesis
      by (auto simp: rtype_responses)
  qed
qed

text \<open>One query for each of the four types.\<close>

theorem payload_fields_match_type_witness:
  "rtype (processQuery queryAllRules) = Installation
   \<and> (\<exists>p. r_partInfo (processQuery queryAllRules) = Some p
          \<and> partNumber p \<noteq> [] \<and> name p \<noteq> [] \<and> price p \<noteq> [])
   \<and> r_products (processQuery queryAllRules) = None
   \<and> r_troubleshooting (processQuery queryAllRules) = None
   \<and> r_recommendedParts (processQuery queryAllRules) = None
   \<and> rtype (processQuery queryCompatibleIceMaker) = Compatibility
   \<and> r_partInfo (processQuery queryCompatibleIceMaker) = None
   \<and> (\<exists>ps. r_products (processQuery queryCompatibleIceMaker) = Some ps \<and> length ps = 3)
   \<and> r_troubleshooting (processQuery queryCompatibleIceMaker) = None
   \<and> r_recommendedParts (processQuery queryCompatibleIceMaker) = None
   \<and> rtype (processQuery queryIceMaker) = Troubleshooting
   \<and> r_partInfo (processQuery queryIceMaker) = None
   \<and> r_products (processQuery queryIceMaker) = None
   \<and> (\<exists>ds. r_troubleshooting (processQuery queryIceMaker) = Some ds \<and> length ds = 3)
   \<and> (\<exists>rs. r_recommendedParts (processQuery queryIceMaker) = Some rs \<and> length rs = 2)
   \<and> rtype (processQuery queryOther) = General
   \<and> rcontent (processQuery queryOther) \<noteq> []
   \<and> r_partInfo (processQuery queryOther) = None
   \<and> r_products (processQuery queryOther) = None
   \<and> r_troubleshooting (processQuery queryOther) = None
   \<and> r_recommendedParts (processQuery queryOther) = None"
proof -
  have a: "rtype (processQuery queryAllRules) = Installation
   \<and> (\<exists>p. r_partInfo (processQuery queryAllRules) = Some p
          \<and> partNumber p \<noteq> [] \<and> name p \<noteq> [] \<and> price p \<noteq> [])
   \<and> r_products (processQuery queryAllRules) = None
   \<and> r_troubleshooting (processQuery queryAllRules) = None
   \<and> r_recommendedParts (processQuery queryAllRules) = None"
    using payload_fields_match_type [of queryAllRules] example_types(1) by auto
  have b: "rtype (processQuery queryCompatibleIceMaker) = Compatibility
   \<and> r_partInfo (processQuery queryCompatibleIceMaker) = None
   \<and> (\<exists>ps. r_products (processQuery queryCompatibleIceMaker) = Some ps \<and> length ps = 3)
   \<and> r_troubleshooting (processQuery queryCompatibleIceMaker) = None
   \<and> r_recommendedParts (processQuery queryCompatibleIceMaker) = None"
    using payload_fields_match_type [of queryCompatibleIceMaker] example_types(2) by auto
  have c: "rtype (processQuery queryIceMaker) = Troubleshooting
   \<and> r_partInfo (processQuery queryIceMaker) = None
   \<and> r_products (processQuery queryIceMaker) = None
   \<and> (\<exists>ds. r_troubleshooting (processQuery queryIceMaker) = Some ds \<and> length ds = 3)
   \<and> (\<exists>rs. r_recommendedParts (processQuery queryIceMaker) = Some rs \<and> length rs = 2)"
    using payload_fields_match_type [of queryIceMaker] example_types(3) by auto
  have d: "rtype (processQuery queryOther) = General
   \<and> rcontent (processQuery queryOther) \<noteq> []
   \<and> r_partInfo (processQuery queryOther) = None
   \<and> r_products (processQuery queryOther) = None
   \<and> r_troubleshooting (processQuery queryOther) = None
   \<and> r_recommendedParts (processQuery queryOther) = None"
    using payload_fields_match_type [of queryOther] example_types(4) by auto
  from a b c d show ?thesis by blast
qed

section \<open>Facts about the bracket match\<close>

lemma matchGroup_Some:
  "matchGroup cs = Some g \<Longrightarrow>
     \<exists>post. cs = g @ 93 # post \<and> 93 \<notin> set g \<and> (\<forall>c \<in> set g. \<not> isLineTerminator c)"
proof (induction cs arbitrary: g)
  case Nil
  then show ?case by simp
next
  case (Cons c cs)
  show ?case
  proof (cases "c = 93")
    case True
    with Cons.prems have "g = []" by simp
    with True show ?thesis by simp
  next
    case False
    with Cons.prems obtain g' where g': "matchGroup cs = Some g'" "g = c # g'"
      and nt: "\<not> isLineTerminator c"
      by (auto split: if_splits)
    from Cons.IH [OF g'(1)] obtain post where
      "cs = g' @ 93 # post" "93 \<notin> set g'" "\<forall>c \<in> set g'. \<not> isLineTerminator c"
      by blast
    with g'(2) nt False show ?thesis by auto
  qed
qed

lemma matchGroup_closed:
  "93 \<notin> set g \<Longrightarrow> \<forall>c \<in> set g. \<not> isLineTerminator c \<Longrightarrow> matchGroup (g @ 93 # post) = Some g"
  by (induction g) auto

lemma matchGroup_None:
  assumes "matchGroup cs = None"
  shows "\<not> (\<exists>g post. cs = g @ 93 # post \<and> 93 \<notin> set g \<and> (\<forall>c \<in> set g. \<not> isLineTerminator c))"
proof
  assume "\<exists>g post. cs = g @ 93 # post \<and> 93 \<notin> set g \<and> (\<forall>c \<in> set g. \<not> isLineTerminator c)"
  then obtain g post where "cs = g @ 93 # post" "93 \<notin> set g"
    "\<forall>c \<in> set g. \<not> isLineTerminator c" by blast
  then have "matchGroup cs = Some g" using matchGroup_closed [of g post] by simp
  with assms show False by simp
qed

lemma matchLabel_leftmost:
  "matchLabel line = Some label \<Longrightarrow>
     \<exists>pre post. line = pre @ 91 # label @ 93 # post
        \<and> 93 \<notin> set label \<and> (\<forall>c \<in> set label. \<not> isLineTerminator c)
        \<and> (\<forall>pre' label' post'.
              line = pre' @ 91 # label' @ 93 # post' \<and> 93 \<notin> set label'
                \<and> (\<forall>c \<in> set label'. \<not> isLineTerminator c)
              \<longrightarrow> length pre \<le> length pre')"
proof (induction line)
  case Nil
  then show ?case by simp
next
  case (Cons c cs)
  show ?case
  proof (cases "c = 91 \<and> matchGroup cs \<noteq> None")
    case True
    with Cons.prems have g: "matchGroup cs = Some label" by auto
    from matchGroup_Some [OF g] obtain post where
      "cs = label @ 93 # post" "93 \<notin> set label" "\<forall>c \<in> set label. \<not> isLineTerminator c"
      by blast
    with True have "c # cs = [] @ 91 # label @ 93 # post
        \<and> 93 \<notin> set label \<and> (\<forall>c \<in> set label. \<not> isLineTerminator c)
        \<and> (\<forall>pre' label' post'.
              c # cs = pre' @ 91 # label' @ 93 # post' \<and> 93 \<notin> set label'
                \<and> (\<forall>c \<in> set label'. \<not> isLineTerminator c)
              \<longrightarrow> length ([]::nat list) \<le> length pre')"
      by simp
    then show ?thesis by blast
  next
    case False
    with Cons.prems have rest: "matchLabel cs = Some label" by (auto split: if_splits)
    from Cons.IH [OF rest] obtain pre post where
      p: "cs = pre @ 91 # label @ 93 # post"
         "93 \<notin> set label" "\<forall>c \<in> set label. \<not> isLineTerminator c"
      and least: "\<And>pre' label' post'.
              cs = pre' @ 91 # label' @ 93 # post' \<Longrightarrow> 93 \<notin> set label'
                \<Longrightarrow> (\<forall>c \<in> set label'. \<not> isLineTerminator c)
              \<Longrightarrow> length pre \<le> length pre'"
      by blast
    have "length (c # pre) \<le> length pre'"
      if d: "c # cs = pre' @ 91 # label' @ 93 # post'" "93 \<notin> set label'"
        "\<forall>c \<in> set label'. \<not> isLineTerminator c"
      for pre' label' post'
    proof (cases pre')
      case Nil
      with d(1) have c: "c = 91" and cs: "cs = label' @ 93 # post'" by simp_all
      from c False have "matchGroup cs = None" by simp
      with matchGroup_None [of cs] cs d(2,3) show ?thesis by blast
    next
      case (Cons a pre'')
      with d(1) have "cs = pre'' @ 91 # label' @ 93 # post'" by simp
      from least [OF this d(2,3)] Cons show ?thesis by simp
    qed
    with p have "c # cs = (c # pre) @ 91 # label @ 93 # post
        \<and> 93 \<notin> set label \<and> (\<forall>c \<in> set label. \<not> isLineTerminator c)
        \<and> (\<forall>pre' label' post'.
              c # cs = pre' @ 91 # label' @ 93 # post' \<and> 93 \<notin> set label'
                \<and> (\<forall>c \<in> set label'. \<not> isLineTerminator c)
              \<longrightarrow> length (c # pre) \<le> length pre')"
      by simp
    then show ?thesis by blast
  qed
qed

lemma matchLabel_found:
  assumes "93 \<notin> set g" and "\<forall>c \<in> set g. \<not> isLineTerminator c"
  shows "\<exists>label. matchLabel (pre @ 91 # g @ 93 # post) = Some label"
proof (induction pre)
  case Nil
  show ?case using matchGroup_closed [OF assms, of post] by simp
next
  case (Cons c pre)
  then show ?case by (auto split: option.splits)
qed

lemma tutorial_literal:
  "asc ''[View Video Tutorial]'' = 91 # asc ''View Video Tutorial'' @ [93]"
  "93 \<notin> set (asc ''View Video Tutorial'')"
  "\<forall>c \<in> set (asc ''View Video Tutorial''). \<not> isLineTerminator c"
  by (simp_all add: asc_def isLineTerminator_def)

lemma includes_tutorial_match:
  assumes "js_includes line (asc ''[View Video Tutorial]'')"
  shows "\<exists>label. matchLabel line = Some label"
proof -
  from assms obtain pre post where
    "line = pre @ asc ''[View Video Tutorial]'' @ post"
    by (auto simp: js_includes_iff)
  then have "line = pre @ 91 # asc ''View Video Tutorial'' @ 93 # post"
    by (simp add: tutorial_literal(1))
  then show ?thesis
    using matchLabel_found [OF tutorial_literal(2,3), of pre post] by simp
qed

lemma renderLine_total: "\<exists>b. renderLine line = Inr b"
proof (cases "js_includes line (asc ''[View Video Tutorial]'')")
  case True
  then obtain label where "matchLabel line = Some label"
    using includes_tutorial_match by blast
  then show ?thesis by (simp add: renderLine_def)
next
  case False
  then show ?thesis by (simp add: renderLine_def)
qed

lemma renderLines_total: "\<exists>bs. renderLines ls = Inr bs \<and> length bs = length ls"
proof (induction ls)
  case Nil
  then show ?case by simp
next
  case (Cons l ls)
  obtain b where "renderLine l = Inr b" using renderLine_total by blast
  moreover from Cons.IH obtain bs where "renderLines ls = Inr bs" "length bs = length ls"
    by blast
  ultimately show ?case by simp
qed

lemma renderMessage_total: "\<exists>v. renderMessage message = Inr v"
proof -
  obtain bs where "renderContent (content message) = Inr bs"
    using renderLines_total [of "splitLines (content message)"]
    by (auto simp: renderContent_def)
  then show ?thesis by (simp add: renderMessage_def)
qed

lemma tutorialLine_render: "renderLine tutorialLine = Inr (Link (asc ''View Video Tutorial''))"
  by (simp add: tutorialLine_def renderLine_def asc_def bulletMark_def endsWith_def
      matchNumbered_def isDigit_def trim_def isWhiteSpace_def isLineTerminator_def)

section \<open>Rendering\<close>

text \<open>
  C7, as it holds on the code: the text \<open>**Title**\n\<bullet> item\n1. step\n\<close> is rendered
  as the heading \<open>Title\<close> without its asterisks, the bullet line, the numbered line, and
  one spacer for the empty piece that \<open>split\<close> leaves after the last line feed, in this
  order.
\<close>

theorem render_title_item_step:
  "renderContent text7
     = Inr [Heading (asc ''Title''), Bullet (bulletMark # asc '' item''),
            Numbered (asc ''1. step''), Blank]"
  by (simp add: text7_def renderContent_def renderLine_def asc_def bulletMark_def endsWith_def
      matchNumbered_def isDigit_def trim_def isWhiteSpace_def)

text \<open>C7 as worded, with three blocks and nothing after them, fails on the same text.\<close>

theorem three_blocks_counterexample:
  "renderContent text7
     \<noteq> Inr [Heading (asc ''Title''), Bullet (bulletMark # asc '' item''),
            Numbered (asc ''1. step'')]"
  by (simp add: text7_def renderContent_def renderLine_def asc_def bulletMark_def endsWith_def
      matchNumbered_def isDigit_def trim_def isWhiteSpace_def)

text \<open>
  C8, as it holds on the code: a line that contains the literal \<open>[View Video Tutorial]\<close>
  and is neither a heading, a bullet line nor a numbered line is rendered as a link. Its
  text is the label of the leftmost bracket pair of the line: it stands between an
  opening bracket and the first closing bracket after it, with no line terminator in
  between, and no opening bracket further left is closed in this way. The rest of the
  line, the target in parentheses included, is not in the output.
\<close>

theorem link_of_tutorial_line:
  assumes "js_includes line (asc ''[View Video Tutorial]'')"
    and "\<not> (startsWith line (asc ''**'') \<and> endsWith line (asc ''**''))"
    and "\<not> startsWith line [bulletMark]"
    and "\<not> matchNumbered (trim line)"
  shows "\<exists>label pre post.
           renderLine line = Inr (Link label)
           \<and> line = pre @ 91 # label @ 93 # post
           \<and> 93 \<notin> set label \<and> (\<forall>c \<in> set label. \<not> isLineTerminator c)
           \<and> (\<forall>pre' label' post'.
                 line = pre' @ 91 # label' @ 93 # post' \<and> 93 \<notin> set label'
                   \<and> (\<forall>c \<in> set label'. \<not> isLineTerminator c)
                 \<longrightarrow> length pre \<le> length pre')"
proof -
  obtain label where l: "matchLabel line = Some label"
    using includes_tutorial_match [OF assms(1)] by blast
  with assms have r: "renderLine line = Inr (Link label)" by (simp add: renderLine_def)
  from matchLabel_leftmost [OF l] obtain pre post where
    "line = pre @ 91 # label @ 93 # post
     \<and> 93 \<notin> set label \<and> (\<forall>c \<in> set label. \<not> isLineTerminator c)
     \<and> (\<forall>pre' label' post'.
           line = pre' @ 91 # label' @ 93 # post' \<and> 93 \<notin> set label'
             \<and> (\<forall>c \<in> set label'. \<not> isLineTerminator c)
           \<longrightarrow> length pre \<le> length pre')"
    by blast
  with r show ?thesis by blast
qed

text \<open>
  The last line of the installation guide, whose link reads \<open>View Video Tutorial\<close>;
  on \<open>[a[View Video Tutorial](x)\<close> the leftmost pair starts earlier and the link
  reads \<open>a[View Video Tutorial\<close>.
\<close>

theorem link_of_tutorial_line_witness:
  "js_includes tutorialLine (asc ''[View Video Tutorial]'')
   \<and> \<not> (startsWith tutorialLine (asc ''**'') \<and> endsWith tutorialLine (asc ''**''))
   \<and> \<not> startsWith tutorialLine [bulletMark]
   \<and> \<not> matchNumbered (trim tutorialLine)
   \<and> (\<exists>label pre post.
         renderLine tutorialLine = Inr (Link label)
         \<and> tutorialLine = pre @ 91 # label @ 93 # post
         \<and> 93 \<notin> set label \<and> (\<forall>c \<in> set label. \<not> isLineTerminator c)
         \<and> (\<forall>pre' label' post'.
               tutorialLine = pre' @ 91 # label' @ 93 # post' \<and> 93 \<notin> set label'
                 \<and> (\<forall>c \<in> set label'. \<not> isLineTerminator c)
               \<longrightarrow> length pre \<le> length pre'))
   \<and> renderLine tutorialLine = Inr (Link (asc ''View Video Tutorial''))
   \<and> renderLine nestedLine = Inr (Link (asc ''a[View Video Tutorial''))"
proof -
  have a: "js_includes tutorialLine (asc ''[View Video Tutorial]'')"
    by (simp add: tutorialLine_def asc_def)
  have b: "\<not> (startsWith tutorialLine (asc ''**'') \<and> endsWith tutorialLine (asc ''**''))"
    by (simp add: tutorialLine_def asc_def)
  have c: "\<not> startsWith tutorialLine [bulletMark]"
    by (simp add: tutorialLine_def asc_def bulletMark_def)
  have d: "\<not> matchNumbered (trim tutorialLine)"
    by (simp add: tutorialLine_def asc_def matchNumbered_def isDigit_def trim_def
        isWhiteSpace_def)
  have e: "renderLine nestedLine = Inr (Link (asc ''a[View Video Tutorial''))"
    by (simp add: nestedLine_def renderLine_def asc_def bulletMark_def endsWith_def
      matchNumbered_def isDigit_def trim_def isWhiteSpace_def isLineTerminator_def)
  from a b c d link_of_tutorial_line [OF a b c d] tutorialLine_render e
  show ?thesis by (intro conjI)
qed

text \<open>
  C8 as worded fails: \<open>[Docs](https://example.com)\<close> is a label in brackets followed at
  once by a target in parentheses, and it is rendered as a plain line, target included.
\<close>

theorem any_label_counterexample:
  "docsLine = asc ''['' @ asc ''Docs'' @ asc '']'' @ asc ''('' @ asc ''https://example.com'' @ asc '')''
   \<and> renderLine docsLine = Inr (Paragraph docsLine)
   \<and> renderLine docsLine \<noteq> Inr (Link (asc ''Docs''))"
  by (simp add: docsLine_def renderLine_def asc_def bulletMark_def endsWith_def
      matchNumbered_def isDigit_def trim_def isWhiteSpace_def)

text \<open>
  C9: rendering never throws. Every text is rendered as one block for each of its lines,
  every line as exactly one block, every entry as a view; and on a line that contains
  \<open>[View Video Tutorial]\<close> the bracket match is not \<open>null\<close>, so that reading its
  group is safe.
\<close>

theorem render_total:
  "(\<exists>blocks. renderContent text = Inr blocks \<and> length blocks = length (splitLines text))
   \<and> (\<exists>b. renderLine line = Inr b)
   \<and> (\<exists>v. renderMessage message = Inr v)
   \<and> (js_includes line (asc ''[View Video Tutorial]'')
        \<longrightarrow> (\<exists>label. matchLabel line = Some label))"
  using renderLines_total [of "splitLines text"] renderLine_total [of line]
    includes_tutorial_match [of line] renderMessage_total [of message]
  by (simp add: renderContent_def)

text \<open>The installation guide and its last line.\<close>

theorem render_total_witness:
  "(\<exists>blocks. renderContent installationContent = Inr blocks
        \<and> length blocks = length (splitLines installationContent))
   \<and> js_includes tutorialLine (asc ''[View Video Tutorial]'')
   \<and> (\<exists>label. matchLabel tutorialLine = Some label)"
proof -
  have a: "js_includes tutorialLine (asc ''[View Video Tutorial]'')"
    by (simp add: tutorialLine_def asc_def)
  show ?thesis
    using a render_total [of installationContent tutorialLine]
    by blast
qed

section \<open>The controllers\<close>

text \<open>What \<open>catch\<close> and \<open>finally\<close> do, and the three ways into \<open>catch\<close>.\<close>

lemma home_resume_caught:
  assumes "home_tryBody now res = Inl e"
  shows "home_resume now res s
           = s\<lparr>messages := messages s
                  @ [\<lparr>mtype = Bot, content = JStr backendErrorText, data = None,
                      timestamp = now\<rparr>],
                isLoading := False\<rparr>"
  using assms by (simp add: home_resume_def)

lemma home_tryBody_throws:
  "home_tryBody now Rejected = Inl NetworkError"
  "home_tryBody now (Resolved status None) = Inl SyntaxError"
  "home_tryBody now (Resolved status (Some JNull)) = Inl TypeError"
  by (simp_all add: home_tryBody_def)

lemma texts_differ: "couldNotProcess \<noteq> backendErrorText"
  by (simp add: couldNotProcess_def backendErrorText_def asc_def)

text \<open>
  A body that is not a JSON text, under any status, ends in the error entry and clears
  the flag.
\<close>

lemma malformed_body_is_failure:
  "home_resume now (Resolved status None) s
     = s\<lparr>messages := messages s
            @ [\<lparr>mtype = Bot, content = JStr backendErrorText, data = None, timestamp = now\<rparr>],
          isLoading := False\<rparr>"
  by (rule home_resume_caught [OF home_tryBody_throws(2)])

text \<open>
  An accepted submission: the user entry is appended, the input is cleared, the flag is
  set and the query is dispatched; the timer of the simulated component then appends
  the answer of \<open>processQuery\<close> and clears the flag.
\<close>

lemma accepted_submission:
  assumes "trim (input s) \<noteq> []" and "\<not> isLoading s"
  shows "handleSend now s
           = (s\<lparr>messages := messages s
                    @ [\<lparr>mtype = User, content = input s, data = None, timestamp = now\<rparr>],
                 input := [], isLoading := True\<rparr>,
              Some (input s))"
  using assms by (simp add: handleSend_def)

lemma home_accepted_submission:
  assumes "trim (input h) \<noteq> []" and "\<not> isLoading h"
  shows "home_handleSend now h
           = (h\<lparr>messages := messages h
                    @ [\<lparr>mtype = User, content = JStr (input h), data = None,
                        timestamp = now\<rparr>],
                 input := [], isLoading := True\<rparr>,
              Some (input h))"
  using assms by (simp add: home_handleSend_def)

lemma timerCallback_appends:
  "messages (timerCallback now query s)
     = messages s
       @ [\<lparr>mtype = Bot, content = rcontent (processQuery query),
           data = Some (processQuery query), timestamp = now\<rparr>]"
  "isLoading (timerCallback now query s) = False"
  "input (timerCallback now query s) = input s"
  by (simp_all add: timerCallback_def Let_def)

text \<open>
  C5: an answer with a status that is not a success should end in the one entry with the
  error text. \<open>handleSend\<close> never reads the status: an answer with status 500 and a
  JSON body is treated as a success. With a \<open>response\<close> in the body the entry shows
  that text, without one it shows the text of the empty answer, and both carry the body
  as data; \<open>sendChatMessage\<close> throws on the same answer.
\<close>

theorem nonsuccess_status_is_answered:
  "\<not> ok 500
   \<and> sendChatMessage (Resolved 500 (Some unavailableBody)) = Inl BackendError
   \<and> home_resume now (Resolved 500 (Some unavailableBody)) s
       = s\<lparr>messages := messages s
              @ [\<lparr>mtype = Bot, content = JStr (asc ''Service Unavailable''),
                  data = Some unavailableBody, timestamp = now\<rparr>],
            isLoading := False\<rparr>
   \<and> home_resume now (Resolved 500 (Some errorBody)) s
       = s\<lparr>messages := messages s
              @ [\<lparr>mtype = Bot, content = JStr couldNotProcess,
                  data = Some errorBody, timestamp = now\<rparr>],
            isLoading := False\<rparr>
   \<and> JStr (asc ''Service Unavailable'') \<noteq> JStr backendErrorText
   \<and> JStr couldNotProcess \<noteq> JStr backendErrorText"
  by (simp add: ok_def sendChatMessage_def home_resume_def home_tryBody_def unavailableBody_def
      errorBody_def orElse_def asc_def couldNotProcess_def backendErrorText_def)

text \<open>
  C6: a submission whose input is empty or white space only, and a submission made while
  an answer is awaited, change nothing: \<open>handleSend\<close> of either component returns the
  state as it was, with no entry added and nothing dispatched.
\<close>

theorem rejected_submission_is_noop:
  "((\<forall>c \<in> set (input s). isWhiteSpace c) \<or> isLoading s \<longrightarrow> handleSend now s = (s, None))
   \<and> ((\<forall>c \<in> set (input h). isWhiteSpace c) \<or> isLoading h
        \<longrightarrow> home_handleSend now h = (h, None))"
  by (auto simp: handleSend_def home_handleSend_def trim_empty_iff)

text \<open>Three spaces typed into the idle component, and a greeting typed while an answer is awaited.\<close>

theorem rejected_submission_is_noop_witness:
  "list_all isWhiteSpace (input (idleState\<lparr>input := asc ''   ''\<rparr>))
   \<and> \<not> isLoading (idleState\<lparr>input := asc ''   ''\<rparr>)
   \<and> handleSend 5 (idleState\<lparr>input := asc ''   ''\<rparr>) = (idleState\<lparr>input := asc ''   ''\<rparr>, None)
   \<and> isLoading (homeAwaiting\<lparr>input := asc ''Hello''\<rparr>)
   \<and> \<not> list_all isWhiteSpace (input (homeAwaiting\<lparr>input := asc ''Hello''\<rparr>))
   \<and> home_handleSend 5 (homeAwaiting\<lparr>input := asc ''Hello''\<rparr>)
       = (homeAwaiting\<lparr>input := asc ''Hello''\<rparr>, None)"
proof -
  have a: "\<forall>c \<in> set (input (idleState\<lparr>input := asc ''   ''\<rparr>)). isWhiteSpace c"
    by (simp add: asc_def isWhiteSpace_def)
  have b: "isLoading (homeAwaiting\<lparr>input := asc ''Hello''\<rparr>)"
    by (simp add: homeAwaiting_def)
  have c: "\<not> isLoading (idleState\<lparr>input := asc ''   ''\<rparr>)"
    by (simp add: idleState_def)
  have d: "\<not> list_all isWhiteSpace (input (homeAwaiting\<lparr>input := asc ''Hello''\<rparr>))"
    by (simp add: asc_def isWhiteSpace_def)
  from a have a': "list_all isWhiteSpace (input (idleState\<lparr>input := asc ''   ''\<rparr>))"
    by (simp add: list_all_iff)
  show ?thesis
    using a a' b c d
      rejected_submission_is_noop [of "idleState\<lparr>input := asc ''   ''\<rparr>" 5
        "homeAwaiting\<lparr>input := asc ''Hello''\<rparr>"]
    by blast
qed



text \<open>
  The body \<open>null\<close> is no object: reading its \<open>response\<close> throws, and the entry
  added is the error entry, which carries no data.
\<close>

lemma null_body_is_caught:
  "home_resume now (Resolved status (Some JNull)) s
     = s\<lparr>messages := messages s
            @ [\<lparr>mtype = Bot, content = JStr backendErrorText, data = None, timestamp = now\<rparr>],
          isLoading := False\<rparr>"
  by (rule home_resume_caught [OF home_tryBody_throws(3)])



end
